theory Spec2Isabelle
  imports Main
begin

section \<open>The registry as seen by \<^verbatim>\<open>sample.py\<close>\<close>

text \<open>
  The script talks to an MLflow tracking server and model registry. Everything the server
  answers is an input of the model; everything the script asks of it, prints, logs or
  sleeps is recorded, in program order, as a list of events.

  \<^item> \<open>status\<close> is the library's \<^verbatim>\<open>ModelVersionStatus\<close>, which the source only
    compares against \<^verbatim>\<open>READY\<close>. The registry reports one of its three values, so
    \<^verbatim>\<open>from_string\<close> and \<^verbatim>\<open>to_string\<close> do not raise.
  \<^item> \<open>error\<close> holds the exceptions the modelled lines can raise. All of them are
    subclasses of Python's \<^verbatim>\<open>Exception\<close>, so \<^verbatim>\<open>except Exception\<close> catches each.
  \<^item> A model version is identified by a name and an integer version, so
    \<^verbatim>\<open>int(new_model_version) - 1\<close> is the integer before it and \<^verbatim>\<open>max\<close> is the
    greatest integer of a non-empty list.
\<close>

datatype status = PENDING_REGISTRATION | FAILED_REGISTRATION | READY

datatype error =
    RestException string  \<comment> \<open>raised by a registry call, with the server's message\<close>
  | TypeError             \<comment> \<open>\<^verbatim>\<open>os.path.join(None, ...)\<close>\<close>
  | AttributeError        \<comment> \<open>attribute access on \<^verbatim>\<open>None\<close>\<close>
  | ValueError            \<comment> \<open>\<^verbatim>\<open>max([])\<close>\<close>

datatype event =
    MakeDirs string
  | WriteCsv string
  | SetTrackingUri string
  | GetExperimentByName string
  | CreateExperiment string string
  | LoggerInfo string
  | LoggerError error
  | SetExperiment string
  | StartRun string "(string \<times> string) list"
  | Fit
  | LogMetric string
  | LogModel string
  | RegisterModel string string
  | EndRun
  | SearchModelVersions string
  | UpdateModelVersion string int string
  | GetModelVersion string int "error + status"
  | PrintStatus status
  | TransitionStage string int string
  | Sleep nat

text \<open>
  The registry's side of the two calls made by the polling loop. A status lookup is
  answered per attempt: \<open>get_model_version r name version i\<close> is the answer to the
  \<open>i\<close>-th lookup (counted from 0) of one call of \<^verbatim>\<open>wait_model_transition\<close>, either a
  raised exception or the status reported. \<open>transition_model_version_stage\<close> is
  \<open>Some e\<close> when the request raises \<open>e\<close> and \<open>None\<close> when it returns.
\<close>

record registry =
  get_model_version :: "string \<Rightarrow> int \<Rightarrow> nat \<Rightarrow> error + status"
  transition_model_version_stage :: "string \<Rightarrow> int \<Rightarrow> string \<Rightarrow> error option"

section \<open>\<^verbatim>\<open>wait_model_transition\<close>\<close>

text \<open>
  \<^verbatim>\<open>
  def wait_model_transition(model_name, model_version, stage):
      client = MlflowClient()
      for _ in range(10):
          model_version_details = client.get_model_version(name=model_name,
                                                           version=model_version)
          status = ModelVersionStatus.from_string(model_version_details.status)
          print("Model status: %s" % ModelVersionStatus.to_string(status))
          if status == ModelVersionStatus.READY:
              client.transition_model_version_stage(
                  name=model_name, version=model_version, stage=stage)
              break
          time.sleep(1)
  \<close>
  \<open>wait_loop r name version stage n i\<close> runs the \<open>n\<close> iterations that remain when \<open>i\<close>
  have been made. It returns the events of these iterations and how the function ends:
  \<open>Inr ()\<close> for a normal return, \<open>Inl e\<close> when \<open>e\<close> leaves the function (the function
  has no handler of its own).
\<close>

fun wait_loop ::
  "registry \<Rightarrow> string \<Rightarrow> int \<Rightarrow> string \<Rightarrow> nat \<Rightarrow> nat \<Rightarrow> event list \<times> (error + unit)"
where
  "wait_loop r name version stage 0 i = ([], Inr ())"
| "wait_loop r name version stage (Suc n) i =
     (case get_model_version r name version i of
        Inl e \<Rightarrow> ([GetModelVersion name version (Inl e)], Inl e)
      | Inr st \<Rightarrow>
          if st = READY then
            ([GetModelVersion name version (Inr st), PrintStatus st,
              TransitionStage name version stage],
             (case transition_model_version_stage r name version stage of
                Some e \<Rightarrow> Inl e
              | None \<Rightarrow> Inr ()))
          else
            (case wait_loop r name version stage n (Suc i) of
               (tr, res) \<Rightarrow>
                 (GetModelVersion name version (Inr st) # PrintStatus st # Sleep 1 # tr,
                  res)))"

definition wait_model_transition ::
  "registry \<Rightarrow> string \<Rightarrow> int \<Rightarrow> string \<Rightarrow> event list \<times> (error + unit)"
where
  "wait_model_transition r model_name model_version stage =
     wait_loop r model_name model_version stage 10 0"

text \<open>Observations on an event list.\<close>

fun is_transition :: "event \<Rightarrow> bool" where
  "is_transition (TransitionStage n v s) = True"
| "is_transition ev = False"

fun is_sleep :: "event \<Rightarrow> bool" where
  "is_sleep (Sleep d) = True"
| "is_sleep ev = False"

fun is_lookup :: "event \<Rightarrow> bool" where
  "is_lookup (GetModelVersion n v a) = True"
| "is_lookup ev = False"

fun is_unready_lookup :: "event \<Rightarrow> bool" where
  "is_unready_lookup (GetModelVersion n v (Inr st)) = (st \<noteq> READY)"
| "is_unready_lookup ev = False"

definition transitions :: "event list \<Rightarrow> event list" where
  "transitions tr = filter is_transition tr"

definition sleeps :: "event list \<Rightarrow> nat" where
  "sleeps tr = length (filter is_sleep tr)"

definition lookups :: "event list \<Rightarrow> nat" where
  "lookups tr = length (filter is_lookup tr)"

definition unready_lookups :: "event list \<Rightarrow> nat" where
  "unready_lookups tr = length (filter is_unready_lookup tr)"

definition not_ready :: "registry \<Rightarrow> string \<Rightarrow> int \<Rightarrow> nat \<Rightarrow> bool" where
  "not_ready r name version i =
     (case get_model_version r name version i of
        Inl e \<Rightarrow> False
      | Inr st \<Rightarrow> st \<noteq> READY)"

section \<open>\<^verbatim>\<open>main\<close>\<close>

text \<open>
  \<^verbatim>\<open>os.path.join\<close> on a POSIX system, as \<^verbatim>\<open>posixpath.join\<close> computes it: a component
  that starts with the separator replaces what was joined so far; otherwise it is
  appended, after a separator unless the path so far is empty or ends with one.
\<close>

definition startswith_sep :: "string \<Rightarrow> bool" where
  "startswith_sep b = (case b of [] \<Rightarrow> False | c # cs \<Rightarrow> c = CHR ''/'')"

definition join_step :: "string \<Rightarrow> string \<Rightarrow> string" where
  "join_step path b =
     (if startswith_sep b then b
      else if path = [] \<or> last path = CHR ''/'' then path @ b
      else path @ ''/'' @ b)"

definition os_path_join :: "string \<Rightarrow> string list \<Rightarrow> string" where
  "os_path_join a p = foldl join_step a p"

text \<open>The constants of \<^verbatim>\<open>main\<close> (lines 49-57, 92, 153).\<close>

definition user :: string where "user = ''Pouria''"
definition artifact_name :: string where "artifact_name = ''clf-model''"
definition tracking_uri :: string where "tracking_uri = ''http://localhost:5001''"
definition output_test_data :: string where "output_test_data = ''test.csv''"
definition experiment_name :: string where "experiment_name = ''my-experiment''"

definition description :: string where
  "description = ''Random forest scikit-learn model with 100 decision trees.''"

text \<open>
  What the surroundings answer during one execution of \<^verbatim>\<open>main\<close>:
  \<^item> \<open>getenv_HOME\<close>: \<^verbatim>\<open>os.getenv("HOME")\<close>, \<open>None\<close> when the variable is unset;
  \<^item> \<open>path_exists\<close>: \<^verbatim>\<open>os.path.exists\<close>;
  \<^item> \<open>run_name\<close>: \<^verbatim>\<open>str(int(datetime.datetime.now().timestamp()))\<close>;
  \<^item> \<open>get_experiment_by_name\<close>: the experiment's id, \<open>None\<close> when there is no match;
  \<^item> \<open>run_id\<close>: the id of the run that \<^verbatim>\<open>mlflow.start_run\<close> opens;
  \<^item> \<open>search_model_versions\<close>: the versions found for a filter string;
  \<^item> \<open>client\<close>: the registry's answers to the polling loop.

  The dataset, the fitted pipeline and the metric values are opaque to the model: the
  calls that handle them appear as events without their data. The model covers the
  executions in which the library calls other than the status lookup and the stage
  transition return; these two may raise.
\<close>

record env =
  getenv_HOME :: "string option"
  path_exists :: "string \<Rightarrow> bool"
  run_name :: string
  get_experiment_by_name :: "string \<Rightarrow> string option"
  run_id :: string
  search_model_versions :: "string \<Rightarrow> int list"
  client :: registry

text \<open>Line 52: \<^verbatim>\<open>os.path.join(os.getenv("HOME"), "mlflow_artifacts", "clf-model")\<close>.\<close>

definition artifact_path :: "string \<Rightarrow> string" where
  "artifact_path h = os_path_join h [''mlflow_artifacts'', ''clf-model'']"

text \<open>Line 135: \<^verbatim>\<open>"runs:/{run_id}/{artifact_path}".format(...)\<close>.\<close>

definition model_uri :: "string \<Rightarrow> string \<Rightarrow> string" where
  "model_uri run ap = ''runs:/'' @ run @ ''/'' @ ap"

text \<open>Line 146: \<^verbatim>\<open>"name = '%s'" % artifact_path\<close>.\<close>

definition version_query :: "string \<Rightarrow> string" where
  "version_query ap = ''name = '' @ [CHR 0x27] @ ap @ [CHR 0x27]"

text \<open>Lines 54-99: the artifact directory, the CSV of held-out rows, the tracking URI and
  the experiment lookup.\<close>

definition setup_events :: "env \<Rightarrow> string \<Rightarrow> event list" where
  "setup_events e ap =
     (if path_exists e ap then [] else [MakeDirs ap]) @
     [WriteCsv output_test_data, SetTrackingUri tracking_uri,
      GetExperimentByName experiment_name]"

text \<open>Lines 107-143, for an experiment that was found: the log line with its id, the
  run with training, metrics, the logged model and its registration under
  \<open>artifact_name\<close>.\<close>

definition run_events :: "env \<Rightarrow> string \<Rightarrow> string \<Rightarrow> event list" where
  "run_events e ap experiment_id =
     [LoggerInfo (''mlflow experiment id '' @ experiment_id @ '' is ready to use''),
      SetExperiment experiment_name,
      LoggerInfo ''mlflow starting'',
      StartRun (''test'' @ run_name e)
        [(''env'', ''stg''), (''state'', ''pre-publish''), (''mlflow.user'', user)],
      Fit,
      LogMetric ''accuracy_train'',
      LogMetric ''accuracy_test'',
      LogModel ap,
      RegisterModel (model_uri (run_id e) ap) artifact_name,
      EndRun]"

text \<open>
  \<^verbatim>\<open>
      mlf_experiment = client.get_experiment_by_name(experiment_name)
      if mlf_experiment is None:
          experiment_id = client.create_experiment(
              name=experiment_name,
              artifact_location=os.path.join(artifact_path, experiment_name))
      logger.info(f"mlflow experiment id {mlf_experiment.experiment_id} is ready to use")
      ...
      model_version_infos = client.search_model_versions("name = '%s'" % artifact_path)
      new_model_version = max([model_version_info.version
                               for model_version_info in model_version_infos])
      client.update_model_version(name=artifact_path, version=new_model_version,
          description="Random forest scikit-learn model with 100 decision trees.")
      try:
          wait_model_transition(artifact_path, int(new_model_version) - 1, "None")
      except Exception as e:
          logger.error("wait_model_transition got exception %s" % e)
      wait_model_transition(artifact_path, new_model_version, "Staging")
  \<close>
  The three places where Python itself raises are branches of the model: joining a path
  onto \<^verbatim>\<open>None\<close>, reading \<^verbatim>\<open>experiment_id\<close> of \<^verbatim>\<open>None\<close>, and \<^verbatim>\<open>max\<close> of an empty list.
\<close>

definition main :: "env \<Rightarrow> event list \<times> (error + unit)" where
  "main e =
     (case getenv_HOME e of
        None \<Rightarrow> ([], Inl TypeError)
      | Some h \<Rightarrow>
          let ap = artifact_path h;
              t1 = setup_events e ap
          in
          (case get_experiment_by_name e experiment_name of
             None \<Rightarrow>
               (t1 @ [CreateExperiment experiment_name (os_path_join ap [experiment_name])],
                Inl AttributeError)
           | Some experiment_id \<Rightarrow>
               let t2 = t1 @ run_events e ap experiment_id @
                        [SearchModelVersions (version_query ap)]
               in
               (case search_model_versions e (version_query ap) of
                  [] \<Rightarrow> (t2, Inl ValueError)
                | v # vs \<Rightarrow>
                    let new_model_version = fold max vs v;
                        t3 = t2 @ [UpdateModelVersion ap new_model_version description]
                    in
                    (case wait_model_transition (client e) ap (new_model_version - 1) ''None'' of
                       (tp, rp) \<Rightarrow>
                         let t4 = t3 @ tp @
                                  (case rp of Inl ex \<Rightarrow> [LoggerError ex] | Inr u \<Rightarrow> [])
                         in
                         (case wait_model_transition (client e) ap new_model_version ''Staging'' of
                            (tc, rc) \<Rightarrow> (t4 @ tc, rc))))))"

text \<open>
  Observations on the events of \<^verbatim>\<open>main\<close>: the name a model was registered under, the
  filter string of a version search, and the model name passed to a call on one version
  (description update, status lookup, stage transition).
\<close>

fun registered_name :: "event \<Rightarrow> string option" where
  "registered_name (RegisterModel uri n) = Some n"
| "registered_name ev = None"

fun searched_query :: "event \<Rightarrow> string option" where
  "searched_query (SearchModelVersions q) = Some q"
| "searched_query ev = None"

fun version_call_name :: "event \<Rightarrow> string option" where
  "version_call_name (UpdateModelVersion n v d) = Some n"
| "version_call_name (GetModelVersion n v a) = Some n"
| "version_call_name (TransitionStage n v s) = Some n"
| "version_call_name ev = None"

definition registered_names :: "event list \<Rightarrow> string list" where
  "registered_names tr = List.map_filter registered_name tr"

definition searched_queries :: "event list \<Rightarrow> string list" where
  "searched_queries tr = List.map_filter searched_query tr"

definition version_call_names :: "event list \<Rightarrow> string list" where
  "version_call_names tr = List.map_filter version_call_name tr"

section \<open>Concrete executions\<close>

text \<open>
  Registries and environments on which the theorems below are evaluated.
  \<^item> \<open>registry_after k\<close> reports \<^verbatim>\<open>PENDING_REGISTRATION\<close> to the first \<open>k\<close> lookups and
    \<^verbatim>\<open>READY\<close> from then on.
  \<^item> \<open>registry_pending\<close> reports \<^verbatim>\<open>PENDING_REGISTRATION\<close> forever.
  \<^item> \<open>registry_first\<close> knows versions from 1 on, all \<^verbatim>\<open>READY\<close>; the lookup of any other
    version raises.
  \<^item> \<open>registry_none\<close> knows no version at all.
\<close>

definition registry_after :: "nat \<Rightarrow> registry" where
  "registry_after k =
     \<lparr>get_model_version =
        (\<lambda>name version i. if i < k then Inr PENDING_REGISTRATION else Inr READY),
      transition_model_version_stage = (\<lambda>name version stage. None)\<rparr>"

definition registry_pending :: registry where
  "registry_pending =
     \<lparr>get_model_version = (\<lambda>name version i. Inr PENDING_REGISTRATION),
      transition_model_version_stage = (\<lambda>name version stage. None)\<rparr>"

definition registry_first :: registry where
  "registry_first =
     \<lparr>get_model_version =
        (\<lambda>name version i.
           if version < 1 then Inl (RestException ''RESOURCE_DOES_NOT_EXIST'')
           else Inr READY),
      transition_model_version_stage = (\<lambda>name version stage. None)\<rparr>"

definition registry_none :: registry where
  "registry_none =
     \<lparr>get_model_version =
        (\<lambda>name version i. Inl (RestException ''RESOURCE_DOES_NOT_EXIST'')),
      transition_model_version_stage = (\<lambda>name version stage. None)\<rparr>"

text \<open>
  \<open>env_first r\<close>: the home directory is \<^verbatim>\<open>/root\<close>, the experiment exists with id \<^verbatim>\<open>1\<close>,
  the version search finds the single version 1, and the registry answers as \<open>r\<close>.
  \<open>env_no_experiment\<close> differs in that the experiment lookup finds nothing,
  \<open>env_no_versions\<close> in that the version search finds nothing.
\<close>

definition env_first :: "registry \<Rightarrow> env" where
  "env_first r =
     \<lparr>getenv_HOME = Some ''/root'',
      path_exists = (\<lambda>p. False),
      run_name = ''1700000000'',
      get_experiment_by_name = (\<lambda>name. Some ''1''),
      run_id = ''0a1b2c'',
      search_model_versions = (\<lambda>query. [1]),
      client = r\<rparr>"

definition env_no_experiment :: env where
  "env_no_experiment = (env_first registry_first)\<lparr>get_experiment_by_name := (\<lambda>name. None)\<rparr>"

definition env_no_versions :: env where
  "env_no_versions = (env_first registry_first)\<lparr>search_model_versions := (\<lambda>query. [])\<rparr>"

section \<open>Facts about the polling loop\<close>

lemma wait_loop_ready:
  "k < n \<Longrightarrow> (\<forall>j<k. not_ready r nm v (i + j)) \<Longrightarrow>
   get_model_version r nm v (i + k) = Inr READY \<Longrightarrow>
   transitions (fst (wait_loop r nm v st n i)) = [TransitionStage nm v st] \<and>
   last (fst (wait_loop r nm v st n i)) = TransitionStage nm v st \<and>
   sleeps (fst (wait_loop r nm v st n i)) = k \<and>
   lookups (fst (wait_loop r nm v st n i)) = Suc k"
proof (induction k arbitrary: n i)
  case 0
  then obtain m where n: "n = Suc m" by (cases n) auto
  from 0 show ?case by (simp add: n transitions_def sleeps_def lookups_def)
next
  case (Suc k)
  then obtain m where n: "n = Suc m" by (cases n) auto
  from Suc.prems have nr: "not_ready r nm v i"
    by (metis add.right_neutral zero_less_Suc)
  then obtain s where s: "get_model_version r nm v i = Inr s" "s \<noteq> READY"
    by (auto simp: not_ready_def split: sum.splits)
  have a: "k < m" using Suc.prems n by simp
  have b: "\<forall>j<k. not_ready r nm v (Suc i + j)"
    using Suc.prems by (metis Suc_less_eq add_Suc_shift)
  have c: "get_model_version r nm v (Suc i + k) = Inr READY" using Suc.prems by simp
  note IH = Suc.IH [OF a b c]
  obtain tr res where w: "wait_loop r nm v st m (Suc i) = (tr, res)"
    by (cases "wait_loop r nm v st m (Suc i)")
  have ne: "tr \<noteq> []" using IH w by (auto simp: transitions_def)
  show ?case using IH w ne s by (simp add: n transitions_def sleeps_def lookups_def)
qed

lemma wait_loop_never:
  "(\<forall>j<n. not_ready r nm v (i + j)) \<Longrightarrow>
   transitions (fst (wait_loop r nm v st n i)) = [] \<and>
   snd (wait_loop r nm v st n i) = Inr () \<and>
   sleeps (fst (wait_loop r nm v st n i)) = n \<and>
   lookups (fst (wait_loop r nm v st n i)) = n"
proof (induction n arbitrary: i)
  case 0
  show ?case by (simp add: transitions_def sleeps_def lookups_def)
next
  case (Suc n)
  from Suc.prems have nr: "not_ready r nm v i"
    by (metis add.right_neutral zero_less_Suc)
  then obtain s where s: "get_model_version r nm v i = Inr s" "s \<noteq> READY"
    by (auto simp: not_ready_def split: sum.splits)
  have b: "\<forall>j<n. not_ready r nm v (Suc i + j)"
    using Suc.prems by (metis Suc_less_eq add_Suc_shift)
  note IH = Suc.IH [OF b]
  obtain tr res where w: "wait_loop r nm v st n (Suc i) = (tr, res)"
    by (cases "wait_loop r nm v st n (Suc i)")
  show ?case using IH w s by (simp add: transitions_def sleeps_def lookups_def)
qed

lemma wait_loop_lookup_fails:
  "k < n \<Longrightarrow> (\<forall>j<k. not_ready r nm v (i + j)) \<Longrightarrow>
   get_model_version r nm v (i + k) = Inl ex \<Longrightarrow>
   snd (wait_loop r nm v st n i) = Inl ex \<and>
   transitions (fst (wait_loop r nm v st n i)) = []"
proof (induction k arbitrary: n i)
  case 0
  then obtain m where n: "n = Suc m" by (cases n) auto
  from 0 show ?case by (simp add: n transitions_def)
next
  case (Suc k)
  then obtain m where n: "n = Suc m" by (cases n) auto
  from Suc.prems have nr: "not_ready r nm v i"
    by (metis add.right_neutral zero_less_Suc)
  then obtain s where s: "get_model_version r nm v i = Inr s" "s \<noteq> READY"
    by (auto simp: not_ready_def split: sum.splits)
  have a: "k < m" using Suc.prems n by simp
  have b: "\<forall>j<k. not_ready r nm v (Suc i + j)"
    using Suc.prems by (metis Suc_less_eq add_Suc_shift)
  have c: "get_model_version r nm v (Suc i + k) = Inl ex" using Suc.prems by simp
  note IH = Suc.IH [OF a b c]
  obtain tr res where w: "wait_loop r nm v st m (Suc i) = (tr, res)"
    by (cases "wait_loop r nm v st m (Suc i)")
  show ?case using IH w s by (simp add: n transitions_def)
qed

lemma wait_loop_sleeps_le: "sleeps (fst (wait_loop r nm v st n i)) \<le> n"
proof (induction n arbitrary: i)
  case 0
  show ?case by (simp add: sleeps_def)
next
  case (Suc n)
  obtain tr res where w: "wait_loop r nm v st n (Suc i) = (tr, res)"
    by (cases "wait_loop r nm v st n (Suc i)")
  have "sleeps tr \<le> n" using Suc.IH [of "Suc i"] w by simp
  then show ?case using w by (simp add: sleeps_def split: sum.splits)
qed

lemma wait_loop_sleeps_unready:
  "sleeps (fst (wait_loop r nm v st n i)) = unready_lookups (fst (wait_loop r nm v st n i))"
proof (induction n arbitrary: i)
  case 0
  show ?case by (simp add: sleeps_def unready_lookups_def)
next
  case (Suc n)
  obtain tr res where w: "wait_loop r nm v st n (Suc i) = (tr, res)"
    by (cases "wait_loop r nm v st n (Suc i)")
  have "sleeps tr = unready_lookups tr" using Suc.IH [of "Suc i"] w by simp
  then show ?case
    using w by (simp add: sleeps_def unready_lookups_def split: sum.splits)
qed

lemma wait_loop_guarded:
  "fst (wait_loop r nm v st n i) = pre @ TransitionStage nm' v' st' # post \<Longrightarrow>
   (\<exists>pre'. pre = pre' @ [GetModelVersion nm' v' (Inr READY), PrintStatus READY]) \<and>
   post = [] \<and> nm' = nm \<and> v' = v \<and> st' = st"
proof (induction n arbitrary: i pre)
  case 0
  then show ?case by simp
next
  case (Suc n)
  obtain tr res where w: "wait_loop r nm v st n (Suc i) = (tr, res)"
    by (cases "wait_loop r nm v st n (Suc i)")
  show ?case
  proof (cases "get_model_version r nm v i")
    case (Inl e)
    with Suc.prems show ?thesis by (auto simp: Cons_eq_append_conv)
  next
    case (Inr s)
    show ?thesis
    proof (cases "s = READY")
      case True
      with Inr Suc.prems show ?thesis
        by (auto simp: Cons_eq_append_conv)
    next
      case False
      with Inr Suc.prems w
      have eq: "GetModelVersion nm v (Inr s) # PrintStatus s # Sleep 1 # tr
                = pre @ TransitionStage nm' v' st' # post" by simp
      then obtain pre2 where
        p: "pre = GetModelVersion nm v (Inr s) # PrintStatus s # Sleep 1 # pre2" and
        t: "tr = pre2 @ TransitionStage nm' v' st' # post"
        by (auto simp: Cons_eq_append_conv)
      from Suc.IH [of "Suc i" pre2] w t
      show ?thesis using p by auto
    qed
  qed
qed

lemma wait_loop_no_sleep_after_transition:
  "sleeps (dropWhile (\<lambda>ev. \<not> is_transition ev) (fst (wait_loop r nm v st n i))) = 0"
proof (induction n arbitrary: i)
  case 0
  show ?case by (simp add: sleeps_def)
next
  case (Suc n)
  obtain tr res where w: "wait_loop r nm v st n (Suc i) = (tr, res)"
    by (cases "wait_loop r nm v st n (Suc i)")
  have "sleeps (dropWhile (\<lambda>ev. \<not> is_transition ev) tr) = 0"
    using Suc.IH [of "Suc i"] w by simp
  then show ?case using w by (simp add: sleeps_def split: sum.splits)
qed

lemma wait_loop_first_lookup:
  "\<exists>rest. fst (wait_loop r nm v st (Suc n) i) =
     GetModelVersion nm v (get_model_version r nm v i) # rest"
  by (simp split: sum.splits prod.splits)

lemma wait_model_transition_first_lookup:
  "\<exists>rest. fst (wait_model_transition r nm v st) =
     GetModelVersion nm v (get_model_version r nm v 0) # rest"
proof -
  have w: "wait_model_transition r nm v st = wait_loop r nm v st (Suc 9) 0"
    by (simp add: wait_model_transition_def)
  show ?thesis unfolding w by (rule wait_loop_first_lookup)
qed

section \<open>Properties of \<^verbatim>\<open>wait_model_transition\<close>\<close>

text \<open>
  C1. Let the lookups of attempts 1 to \<open>k\<close> succeed with a status other than \<^verbatim>\<open>READY\<close>
  and let attempt \<open>k + 1\<close>, one of the 10, report \<^verbatim>\<open>READY\<close>. Then
  \<^verbatim>\<open>wait_model_transition\<close> issues exactly one stage transition, for the requested
  name, version and stage; that request is the last thing the call does, so no lookup
  and no sleep follows it; the call has made \<open>k + 1\<close> lookups and slept \<open>k\<close> times.
\<close>

theorem ready_within_budget_transitions_once:
  assumes "k < 10"
    and "\<forall>j<k. not_ready r name version j"
    and "get_model_version r name version k = Inr READY"
  shows "transitions (fst (wait_model_transition r name version stage)) =
           [TransitionStage name version stage] \<and>
         last (fst (wait_model_transition r name version stage)) =
           TransitionStage name version stage \<and>
         lookups (fst (wait_model_transition r name version stage)) = Suc k \<and>
         sleeps (fst (wait_model_transition r name version stage)) = k"
  using wait_loop_ready [of k 10 r name version 0 stage] assms
  by (simp add: wait_model_transition_def)

theorem ready_within_budget_transitions_once_witness:
  "(2::nat) < 10 \<and>
   not_ready (registry_after 2) ''clf-model'' 1 0 \<and>
   not_ready (registry_after 2) ''clf-model'' 1 1 \<and>
   get_model_version (registry_after 2) ''clf-model'' 1 2 = Inr READY \<and>
   transitions (fst (wait_model_transition (registry_after 2) ''clf-model'' 1 ''Staging'')) =
     [TransitionStage ''clf-model'' 1 ''Staging''] \<and>
   last (fst (wait_model_transition (registry_after 2) ''clf-model'' 1 ''Staging'')) =
     TransitionStage ''clf-model'' 1 ''Staging'' \<and>
   lookups (fst (wait_model_transition (registry_after 2) ''clf-model'' 1 ''Staging'')) = 3 \<and>
   sleeps (fst (wait_model_transition (registry_after 2) ''clf-model'' 1 ''Staging'')) = 2"
proof -
  have a: "\<forall>j<2. not_ready (registry_after 2) ''clf-model'' 1 j"
    by (simp add: not_ready_def registry_after_def)
  have b: "get_model_version (registry_after 2) ''clf-model'' 1 2 = Inr READY"
    by (simp add: registry_after_def)
  have c: "(2::nat) < 10" by simp
  show ?thesis
    using ready_within_budget_transitions_once [OF c a b, of "''Staging''"] a b
    by simp
qed

text \<open>
  C2. When each of the 10 lookups succeeds with a status other than \<^verbatim>\<open>READY\<close>,
  \<^verbatim>\<open>wait_model_transition\<close> issues no stage transition and returns normally, after
  10 lookups.
\<close>

theorem never_ready_no_transition:
  assumes "\<forall>j<10. not_ready r name version j"
  shows "transitions (fst (wait_model_transition r name version stage)) = [] \<and>
         snd (wait_model_transition r name version stage) = Inr () \<and>
         lookups (fst (wait_model_transition r name version stage)) = 10"
  using wait_loop_never [of 10 r name version 0 stage] assms
  by (simp add: wait_model_transition_def)

theorem never_ready_no_transition_witness:
  "list_all (not_ready registry_pending ''clf-model'' 1) [0..<10] \<and>
   transitions (fst (wait_model_transition registry_pending ''clf-model'' 1 ''Staging'')) = [] \<and>
   snd (wait_model_transition registry_pending ''clf-model'' 1 ''Staging'') = Inr () \<and>
   lookups (fst (wait_model_transition registry_pending ''clf-model'' 1 ''Staging'')) = 10"
proof -
  have a: "\<forall>j<10. not_ready registry_pending ''clf-model'' 1 j"
    by (simp add: not_ready_def registry_pending_def)
  have b: "list_all (not_ready registry_pending ''clf-model'' 1) [0..<10]"
    by (simp add: list_all_iff not_ready_def registry_pending_def)
  show ?thesis
    using never_ready_no_transition [OF a, of "''Staging''"] b by simp
qed

text \<open>
  C3, as the code has it. The call sleeps once after every attempt whose lookup reported
  a status other than \<^verbatim>\<open>READY\<close>, the 10th attempt included, so it sleeps at most 10
  times (not 9); from the stage transition on it does not sleep.
\<close>

theorem sleeps_once_per_unready_attempt:
  "sleeps (fst (wait_model_transition r name version stage)) \<le> 10 \<and>
   sleeps (fst (wait_model_transition r name version stage)) =
     unready_lookups (fst (wait_model_transition r name version stage)) \<and>
   sleeps (dropWhile (\<lambda>ev. \<not> is_transition ev)
             (fst (wait_model_transition r name version stage))) = 0"
  using wait_loop_sleeps_le [of r name version stage 10 0]
    wait_loop_sleeps_unready [of r name version stage 10 0]
    wait_loop_no_sleep_after_transition [of r name version stage 10 0]
  by (simp add: wait_model_transition_def)

text \<open>
  C3, as the claim has it, fails: when all ten lookups report
  \<^verbatim>\<open>PENDING_REGISTRATION\<close> the call sleeps ten times, the last time after the final
  attempt.
\<close>

theorem ten_pending_sleeps_ten_times:
  "sleeps (fst (wait_model_transition registry_pending ''clf-model'' 1 ''Staging'')) = 10 \<and>
   \<not> sleeps (fst (wait_model_transition registry_pending ''clf-model'' 1 ''Staging'')) \<le> 9 \<and>
   last (fst (wait_model_transition registry_pending ''clf-model'' 1 ''Staging'')) = Sleep 1"
proof -
  have a: "\<forall>j<10. not_ready registry_pending ''clf-model'' 1 (0 + j)"
    by (simp add: not_ready_def registry_pending_def)
  have s: "sleeps (fst (wait_model_transition registry_pending ''clf-model'' 1 ''Staging'')) = 10"
    using wait_loop_never [OF a, of "''Staging''"] by (simp add: wait_model_transition_def)
  have l: "last (fst (wait_model_transition registry_pending ''clf-model'' 1 ''Staging'')) = Sleep 1"
    by (simp add: wait_model_transition_def registry_pending_def eval_nat_numeral)
  show ?thesis using s l by simp
qed

text \<open>
  C4. Wherever a stage transition stands in the events of \<^verbatim>\<open>wait_model_transition\<close>,
  the two events before it are the lookup of that same name and version, answered
  \<^verbatim>\<open>READY\<close>, and the print of that status. So no transition is requested at an attempt
  that observed \<^verbatim>\<open>PENDING_REGISTRATION\<close> or \<^verbatim>\<open>FAILED_REGISTRATION\<close>.
\<close>

theorem transition_only_after_ready:
  assumes "fst (wait_model_transition r name version stage) =
             pre @ TransitionStage n v s # post"
  shows "\<exists>pre'. pre = pre' @ [GetModelVersion n v (Inr READY), PrintStatus READY]"
proof -
  have "fst (wait_loop r name version stage 10 0) = pre @ TransitionStage n v s # post"
    using assms by (simp add: wait_model_transition_def)
  from wait_loop_guarded [OF this] show ?thesis by blast
qed

theorem transition_only_after_ready_witness:
  "fst (wait_model_transition (registry_after 1) ''clf-model'' 1 ''Staging'') =
     [GetModelVersion ''clf-model'' 1 (Inr PENDING_REGISTRATION),
      PrintStatus PENDING_REGISTRATION, Sleep 1,
      GetModelVersion ''clf-model'' 1 (Inr READY), PrintStatus READY] @
     TransitionStage ''clf-model'' 1 ''Staging'' # [] \<and>
   (\<exists>pre'. [GetModelVersion ''clf-model'' 1 (Inr PENDING_REGISTRATION),
            PrintStatus PENDING_REGISTRATION, Sleep 1,
            GetModelVersion ''clf-model'' 1 (Inr READY), PrintStatus READY] =
           pre' @ [GetModelVersion ''clf-model'' 1 (Inr READY), PrintStatus READY])"
proof -
  have a: "fst (wait_model_transition (registry_after 1) ''clf-model'' 1 ''Staging'') =
     [GetModelVersion ''clf-model'' 1 (Inr PENDING_REGISTRATION),
      PrintStatus PENDING_REGISTRATION, Sleep 1,
      GetModelVersion ''clf-model'' 1 (Inr READY), PrintStatus READY] @
     TransitionStage ''clf-model'' 1 ''Staging'' # []"
    by (simp add: wait_model_transition_def registry_after_def eval_nat_numeral)
  show ?thesis using transition_only_after_ready [OF a] a by simp
qed

text \<open>
  C7. When the first two lookups report \<^verbatim>\<open>PENDING_REGISTRATION\<close> and the third
  \<^verbatim>\<open>READY\<close>, the call for stage \<^verbatim>\<open>Staging\<close> sleeps exactly twice and issues exactly
  one stage transition, which carries the stage \<^verbatim>\<open>Staging\<close>.
\<close>

theorem pending_pending_ready_staging:
  assumes "get_model_version r name version 0 = Inr PENDING_REGISTRATION"
    and "get_model_version r name version 1 = Inr PENDING_REGISTRATION"
    and "get_model_version r name version 2 = Inr READY"
  shows "sleeps (fst (wait_model_transition r name version ''Staging'')) = 2 \<and>
         transitions (fst (wait_model_transition r name version ''Staging'')) =
           [TransitionStage name version ''Staging'']"
proof -
  have "\<forall>j<2. not_ready r name version (0 + j)"
  proof (intro allI impI)
    fix j :: nat
    assume "j < 2"
    then have "j = 0 \<or> j = 1" by auto
    then show "not_ready r name version (0 + j)"
      using assms(1,2) by (auto simp: not_ready_def)
  qed
  moreover have "(2::nat) < 10" by simp
  moreover have "get_model_version r name version (0 + 2) = Inr READY"
    using assms(3) by (simp only: add.left_neutral)
  ultimately have
    "transitions (fst (wait_loop r name version ''Staging'' 10 0)) =
       [TransitionStage name version ''Staging''] \<and>
     last (fst (wait_loop r name version ''Staging'' 10 0)) =
       TransitionStage name version ''Staging'' \<and>
     sleeps (fst (wait_loop r name version ''Staging'' 10 0)) = 2 \<and>
     lookups (fst (wait_loop r name version ''Staging'' 10 0)) = Suc 2"
    by (intro wait_loop_ready)
  then show ?thesis by (simp add: wait_model_transition_def)
qed

theorem pending_pending_ready_staging_witness:
  "get_model_version (registry_after 2) ''clf-model'' 3 0 = Inr PENDING_REGISTRATION \<and>
   get_model_version (registry_after 2) ''clf-model'' 3 1 = Inr PENDING_REGISTRATION \<and>
   get_model_version (registry_after 2) ''clf-model'' 3 2 = Inr READY \<and>
   sleeps (fst (wait_model_transition (registry_after 2) ''clf-model'' 3 ''Staging'')) = 2 \<and>
   transitions (fst (wait_model_transition (registry_after 2) ''clf-model'' 3 ''Staging'')) =
     [TransitionStage ''clf-model'' 3 ''Staging'']"
proof -
  have a: "get_model_version (registry_after 2) ''clf-model'' 3 0 = Inr PENDING_REGISTRATION"
    by (simp add: registry_after_def)
  have b: "get_model_version (registry_after 2) ''clf-model'' 3 1 = Inr PENDING_REGISTRATION"
    by (simp add: registry_after_def)
  have c: "get_model_version (registry_after 2) ''clf-model'' 3 2 = Inr READY"
    by (simp add: registry_after_def)
  show ?thesis using pending_pending_ready_staging [OF a b c] a b c by simp
qed

section \<open>Facts about \<^verbatim>\<open>main\<close>\<close>

lemma map_filter_append:
  "List.map_filter f (xs @ ys) = List.map_filter f xs @ List.map_filter f ys"
  by (simp add: List.map_filter_def)

lemma artifact_path_suffix:
  "\<exists>p. artifact_path h = p @ ''mlflow_artifacts/clf-model''"
  by (simp add: artifact_path_def os_path_join_def join_step_def startswith_sep_def)

lemma artifact_path_not_artifact_name: "artifact_path h \<noteq> artifact_name"
proof
  assume eq: "artifact_path h = artifact_name"
  obtain p where p: "artifact_path h = p @ ''mlflow_artifacts/clf-model''"
    using artifact_path_suffix by blast
  have "length (artifact_path h) = length artifact_name" using eq by simp
  then show False by (simp add: p artifact_name_def)
qed

lemma wait_loop_names:
  "set (version_call_names (fst (wait_loop r nm v st n i))) \<subseteq> {nm} \<and>
   registered_names (fst (wait_loop r nm v st n i)) = [] \<and>
   searched_queries (fst (wait_loop r nm v st n i)) = []"
proof (induction n arbitrary: i)
  case 0
  show ?case by (simp add: version_call_names_def registered_names_def searched_queries_def)
next
  case (Suc n)
  obtain tr res where w: "wait_loop r nm v st n (Suc i) = (tr, res)"
    by (cases "wait_loop r nm v st n (Suc i)")
  from Suc.IH [of "Suc i"] w show ?case
    by (simp add: version_call_names_def registered_names_def searched_queries_def
        split: sum.splits)
qed

lemma wait_model_transition_names:
  "set (version_call_names (fst (wait_model_transition r nm v st))) = {nm} \<and>
   registered_names (fst (wait_model_transition r nm v st)) = [] \<and>
   searched_queries (fst (wait_model_transition r nm v st)) = []"
proof -
  obtain rest where f: "fst (wait_model_transition r nm v st) =
      GetModelVersion nm v (get_model_version r nm v 0) # rest"
    using wait_model_transition_first_lookup by blast
  have "nm \<in> set (version_call_names (fst (wait_model_transition r nm v st)))"
    by (simp add: f version_call_names_def)
  then show ?thesis
    using wait_loop_names [of r nm v st 10 0]
    by (auto simp: wait_model_transition_def)
qed

lemma main_no_home:
  "getenv_HOME e = None \<Longrightarrow> main e = ([], Inl TypeError)"
  by (simp add: main_def)

lemma main_no_experiment:
  "getenv_HOME e = Some h \<Longrightarrow> get_experiment_by_name e experiment_name = None \<Longrightarrow>
   main e =
     (setup_events e (artifact_path h) @
      [CreateExperiment experiment_name (os_path_join (artifact_path h) [experiment_name])],
      Inl AttributeError)"
  by (simp add: main_def Let_def)

lemma main_no_versions:
  "getenv_HOME e = Some h \<Longrightarrow> get_experiment_by_name e experiment_name = Some x \<Longrightarrow>
   search_model_versions e (version_query (artifact_path h)) = [] \<Longrightarrow>
   main e =
     (setup_events e (artifact_path h) @ run_events e (artifact_path h) x @
      [SearchModelVersions (version_query (artifact_path h))],
      Inl ValueError)"
  by (simp add: main_def Let_def)

lemma main_polls:
  "getenv_HOME e = Some h \<Longrightarrow> get_experiment_by_name e experiment_name = Some x \<Longrightarrow>
   search_model_versions e (version_query (artifact_path h)) = v # vs \<Longrightarrow>
   main e =
     (setup_events e (artifact_path h) @ run_events e (artifact_path h) x @
      [SearchModelVersions (version_query (artifact_path h)),
       UpdateModelVersion (artifact_path h) (fold max vs v) description] @
      fst (wait_model_transition (client e) (artifact_path h) (fold max vs v - 1) ''None'') @
      (case snd (wait_model_transition (client e) (artifact_path h) (fold max vs v - 1) ''None'')
       of Inl ex \<Rightarrow> [LoggerError ex] | Inr u \<Rightarrow> []) @
      fst (wait_model_transition (client e) (artifact_path h) (fold max vs v) ''Staging''),
      snd (wait_model_transition (client e) (artifact_path h) (fold max vs v) ''Staging''))"
  by (simp add: main_def Let_def split: prod.splits)

lemma setup_events_names:
  "version_call_names (setup_events e ap) = [] \<and>
   registered_names (setup_events e ap) = [] \<and>
   searched_queries (setup_events e ap) = []"
  by (simp add: setup_events_def version_call_names_def registered_names_def
      searched_queries_def)

lemma run_events_names:
  "version_call_names (run_events e ap x) = [] \<and>
   registered_names (run_events e ap x) = [artifact_name] \<and>
   searched_queries (run_events e ap x) = []"
  by (simp add: run_events_def version_call_names_def registered_names_def
      searched_queries_def)

lemma artifact_path_root: "artifact_path ''/root'' = ''/root/mlflow_artifacts/clf-model''"
  by (simp add: artifact_path_def os_path_join_def join_step_def startswith_sep_def)

lemma registry_first_previous:
  "wait_model_transition registry_first nm 0 st =
     ([GetModelVersion nm 0 (Inl (RestException ''RESOURCE_DOES_NOT_EXIST''))],
      Inl (RestException ''RESOURCE_DOES_NOT_EXIST''))"
  by (simp add: wait_model_transition_def registry_first_def eval_nat_numeral)

lemma registry_first_current:
  "wait_model_transition registry_first nm 1 st =
     ([GetModelVersion nm 1 (Inr READY), PrintStatus READY, TransitionStage nm 1 st],
      Inr ())"
  by (simp add: wait_model_transition_def registry_first_def eval_nat_numeral)

lemma registry_none_lookup:
  "wait_model_transition registry_none nm v st =
     ([GetModelVersion nm v (Inl (RestException ''RESOURCE_DOES_NOT_EXIST''))],
      Inl (RestException ''RESOURCE_DOES_NOT_EXIST''))"
  by (simp add: wait_model_transition_def registry_none_def eval_nat_numeral)

section \<open>Properties of \<^verbatim>\<open>main\<close>\<close>

text \<open>
  C5, as the code has it. \<^verbatim>\<open>wait_model_transition\<close> has no handler: a lookup that
  fails, at whichever attempt, ends the call with that exception, raised to the caller.
  \<^verbatim>\<open>main\<close> ends the way its current-version invocation ends: the previous-version
  invocation runs under \<^verbatim>\<open>try\<close>/\<^verbatim>\<open>except Exception\<close>, so its failure never decides
  how \<^verbatim>\<open>main\<close> ends, while a failure of the current-version invocation leaves
  \<^verbatim>\<open>main\<close>.
\<close>

theorem lookup_failure_caught_by_main_for_previous_only:
  assumes "getenv_HOME e = Some h"
    and "get_experiment_by_name e experiment_name = Some x"
    and "search_model_versions e (version_query (artifact_path h)) = v # vs"
    and "k < 10"
    and "\<forall>j<k. not_ready (client e) (artifact_path h) version j"
    and "get_model_version (client e) (artifact_path h) version k = Inl ex"
  shows "snd (wait_model_transition (client e) (artifact_path h) version stage) = Inl ex \<and>
         snd (main e) =
           snd (wait_model_transition (client e) (artifact_path h) (fold max vs v) ''Staging'')"
proof -
  have "snd (wait_loop (client e) (artifact_path h) version stage 10 0) = Inl ex"
    using wait_loop_lookup_fails [of k 10 "client e" "artifact_path h" version 0 ex stage]
      assms(4,5,6) by simp
  then show ?thesis
    using main_polls [OF assms(1,2,3)] by (simp add: wait_model_transition_def)
qed

theorem lookup_failure_caught_by_main_for_previous_only_witness:
  "getenv_HOME (env_first registry_none) = Some ''/root'' \<and>
   get_experiment_by_name (env_first registry_none) experiment_name = Some ''1'' \<and>
   search_model_versions (env_first registry_none) (version_query (artifact_path ''/root'')) =
     1 # [] \<and>
   (0::nat) < 10 \<and>
   get_model_version (client (env_first registry_none)) (artifact_path ''/root'') 1 0 =
     Inl (RestException ''RESOURCE_DOES_NOT_EXIST'') \<and>
   snd (wait_model_transition (client (env_first registry_none)) (artifact_path ''/root'') 1
          ''Staging'') = Inl (RestException ''RESOURCE_DOES_NOT_EXIST'') \<and>
   snd (main (env_first registry_none)) = Inl (RestException ''RESOURCE_DOES_NOT_EXIST'')"
proof -
  have a: "getenv_HOME (env_first registry_none) = Some ''/root''"
    by (simp add: env_first_def)
  have b: "get_experiment_by_name (env_first registry_none) experiment_name = Some ''1''"
    by (simp add: env_first_def)
  have c: "search_model_versions (env_first registry_none)
             (version_query (artifact_path ''/root'')) = 1 # []"
    by (simp add: env_first_def)
  have d: "(0::nat) < 10" by simp
  have f: "\<forall>j<0. not_ready (client (env_first registry_none)) (artifact_path ''/root'') 1 j"
    by simp
  have g: "get_model_version (client (env_first registry_none)) (artifact_path ''/root'') 1 0 =
             Inl (RestException ''RESOURCE_DOES_NOT_EXIST'')"
    by (simp add: env_first_def registry_none_def)
  show ?thesis
    using lookup_failure_caught_by_main_for_previous_only [OF a b c d f g, of "''Staging''"]
      a b c g
    by simp
qed

text \<open>
  C5, as the claim has it, fails. In a registry that knows no version the lookup
  failure leaves \<^verbatim>\<open>wait_model_transition\<close>; and in \<^verbatim>\<open>main\<close>, where the search found
  version 1, the failure of the current-version invocation leaves \<^verbatim>\<open>main\<close> as well.
\<close>

theorem lookup_failure_leaves_the_call:
  "snd (wait_model_transition registry_none ''clf-model'' 1 ''Staging'') =
     Inl (RestException ''RESOURCE_DOES_NOT_EXIST'') \<and>
   snd (main (env_first registry_none)) = Inl (RestException ''RESOURCE_DOES_NOT_EXIST'')"
proof -
  have "snd (main (env_first registry_none)) =
      snd (wait_model_transition registry_none (artifact_path ''/root'') (fold max [] 1)
             ''Staging'')"
    using main_polls [of "env_first registry_none" "''/root''" "''1''" 1 "[]"]
    by (simp add: env_first_def)
  then have "snd (main (env_first registry_none)) =
      Inl (RestException ''RESOURCE_DOES_NOT_EXIST'')"
    by (simp add: registry_none_lookup)
  then show ?thesis by (simp add: registry_none_lookup)
qed

text \<open>
  C6. When the first polling call of \<^verbatim>\<open>main\<close>, for the version before the newest,
  raises, the exception is caught and logged right after that call's events; the
  second polling call, for the newest version and stage \<^verbatim>\<open>Staging\<close>, then runs (it
  starts with its status lookup), and \<^verbatim>\<open>main\<close> ends the way this second call ends.
\<close>

theorem first_poll_failure_logged_second_poll_runs:
  assumes "getenv_HOME e = Some h"
    and "get_experiment_by_name e experiment_name = Some x"
    and "search_model_versions e (version_query (artifact_path h)) = v # vs"
    and "snd (wait_model_transition (client e) (artifact_path h) (fold max vs v - 1) ''None'') =
           Inl ex"
  shows "fst (main e) =
           setup_events e (artifact_path h) @ run_events e (artifact_path h) x @
           [SearchModelVersions (version_query (artifact_path h)),
            UpdateModelVersion (artifact_path h) (fold max vs v) description] @
           fst (wait_model_transition (client e) (artifact_path h) (fold max vs v - 1) ''None'') @
           [LoggerError ex] @
           fst (wait_model_transition (client e) (artifact_path h) (fold max vs v) ''Staging'') \<and>
         snd (main e) =
           snd (wait_model_transition (client e) (artifact_path h) (fold max vs v) ''Staging'') \<and>
         (\<exists>rest. fst (wait_model_transition (client e) (artifact_path h) (fold max vs v)
                        ''Staging'') =
                  GetModelVersion (artifact_path h) (fold max vs v)
                    (get_model_version (client e) (artifact_path h) (fold max vs v) 0) # rest)"
  using main_polls [OF assms(1,2,3)] assms(4)
    wait_model_transition_first_lookup
      [of "client e" "artifact_path h" "fold max vs v" "''Staging''"]
  by simp

theorem first_poll_failure_logged_second_poll_runs_witness:
  "getenv_HOME (env_first registry_first) = Some ''/root'' \<and>
   get_experiment_by_name (env_first registry_first) experiment_name = Some ''1'' \<and>
   search_model_versions (env_first registry_first) (version_query (artifact_path ''/root'')) =
     1 # [] \<and>
   snd (wait_model_transition (client (env_first registry_first)) (artifact_path ''/root'')
          (fold max [] 1 - 1) ''None'') = Inl (RestException ''RESOURCE_DOES_NOT_EXIST'') \<and>
   fst (main (env_first registry_first)) =
     setup_events (env_first registry_first) ''/root/mlflow_artifacts/clf-model'' @
     run_events (env_first registry_first) ''/root/mlflow_artifacts/clf-model'' ''1'' @
     [SearchModelVersions (version_query ''/root/mlflow_artifacts/clf-model''),
      UpdateModelVersion ''/root/mlflow_artifacts/clf-model'' 1 description,
      GetModelVersion ''/root/mlflow_artifacts/clf-model'' 0
        (Inl (RestException ''RESOURCE_DOES_NOT_EXIST'')),
      LoggerError (RestException ''RESOURCE_DOES_NOT_EXIST''),
      GetModelVersion ''/root/mlflow_artifacts/clf-model'' 1 (Inr READY),
      PrintStatus READY,
      TransitionStage ''/root/mlflow_artifacts/clf-model'' 1 ''Staging''] \<and>
   snd (main (env_first registry_first)) = Inr ()"
proof -
  have a: "getenv_HOME (env_first registry_first) = Some ''/root''"
    by (simp add: env_first_def)
  have b: "get_experiment_by_name (env_first registry_first) experiment_name = Some ''1''"
    by (simp add: env_first_def)
  have c: "search_model_versions (env_first registry_first)
             (version_query (artifact_path ''/root'')) = 1 # []"
    by (simp add: env_first_def)
  have cl: "client (env_first registry_first) = registry_first"
    by (simp add: env_first_def)
  have d: "snd (wait_model_transition (client (env_first registry_first))
             (artifact_path ''/root'') (fold max [] 1 - 1) ''None'') =
           Inl (RestException ''RESOURCE_DOES_NOT_EXIST'')"
    by (simp add: cl registry_first_previous)
  show ?thesis
    using first_poll_failure_logged_second_poll_runs [OF a b c d] a b c d
    by (simp add: cl registry_first_previous registry_first_current artifact_path_root)
qed

text \<open>
  C8 asks that \<^verbatim>\<open>main\<close> go on after creating a missing experiment. The code creates
  it and then reads \<^verbatim>\<open>mlf_experiment.experiment_id\<close> of the absent lookup result
  (line 107): with home directory \<^verbatim>\<open>/root\<close> and no experiment of the name, \<^verbatim>\<open>main\<close>
  ends with \<^verbatim>\<open>AttributeError\<close> right after the creation request.
\<close>

theorem absent_experiment_is_dereferenced:
  "main env_no_experiment =
     ([MakeDirs ''/root/mlflow_artifacts/clf-model'',
       WriteCsv ''test.csv'',
       SetTrackingUri ''http://localhost:5001'',
       GetExperimentByName ''my-experiment'',
       CreateExperiment ''my-experiment'' ''/root/mlflow_artifacts/clf-model/my-experiment''],
      Inl AttributeError)"
proof -
  have "main env_no_experiment =
      (setup_events env_no_experiment (artifact_path ''/root'') @
       [CreateExperiment experiment_name
          (os_path_join (artifact_path ''/root'') [experiment_name])],
       Inl AttributeError)"
    by (rule main_no_experiment) (simp_all add: env_no_experiment_def env_first_def)
  then show ?thesis
    by (simp add: artifact_path_root setup_events_def env_no_experiment_def env_first_def
        experiment_name_def output_test_data_def tracking_uri_def os_path_join_def
        join_step_def startswith_sep_def)
qed

text \<open>
  C9. In an execution of \<^verbatim>\<open>main\<close> that reaches the version search with a non-empty
  answer, the model is registered under \<^verbatim>\<open>clf-model\<close> and under no other name, while
  the one version search has the filter \<^verbatim>\<open>name = '\<close>, the artifact path, \<^verbatim>\<open>'\<close>; the
  description update is made under the artifact path, both polls look the artifact
  path up, and every call on one version (update, lookup, transition) names the
  artifact path. The artifact path ends in \<^verbatim>\<open>mlflow_artifacts/clf-model\<close>, so it is
  never the string \<^verbatim>\<open>clf-model\<close>.
\<close>

theorem registry_calls_name_the_artifact_path:
  assumes "getenv_HOME e = Some h"
    and "get_experiment_by_name e experiment_name = Some x"
    and "search_model_versions e (''name = '' @ [CHR 0x27] @ artifact_path h @ [CHR 0x27]) =
           v # vs"
  shows "(\<exists>p. artifact_path h = p @ ''mlflow_artifacts/clf-model'') \<and>
         artifact_path h \<noteq> ''clf-model'' \<and>
         registered_names (fst (main e)) = [''clf-model''] \<and>
         searched_queries (fst (main e)) =
           [''name = '' @ [CHR 0x27] @ artifact_path h @ [CHR 0x27]] \<and>
         UpdateModelVersion (artifact_path h) (fold max vs v) description \<in> set (fst (main e)) \<and>
         GetModelVersion (artifact_path h) (fold max vs v - 1)
           (get_model_version (client e) (artifact_path h) (fold max vs v - 1) 0)
           \<in> set (fst (main e)) \<and>
         GetModelVersion (artifact_path h) (fold max vs v)
           (get_model_version (client e) (artifact_path h) (fold max vs v) 0)
           \<in> set (fst (main e)) \<and>
         set (version_call_names (fst (main e))) = {artifact_path h}"
proof -
  let ?ap = "artifact_path h"
  let ?new = "fold max vs v"
  let ?p = "wait_model_transition (client e) ?ap (?new - 1) ''None''"
  let ?c = "wait_model_transition (client e) ?ap ?new ''Staging''"
  let ?log = "case snd ?p of Inl ex \<Rightarrow> [LoggerError ex] | Inr u \<Rightarrow> []"
  have q: "version_query ?ap = ''name = '' @ [CHR 0x27] @ ?ap @ [CHR 0x27]"
    by (simp add: version_query_def)
  have s3: "search_model_versions e (version_query ?ap) = v # vs"
    using assms(3) by (simp only: q)
  have m: "fst (main e) =
      setup_events e ?ap @ run_events e ?ap x @
      [SearchModelVersions (version_query ?ap), UpdateModelVersion ?ap ?new description] @
      fst ?p @ ?log @ fst ?c"
    using main_polls [OF assms(1,2) s3] by simp
  have lg: "version_call_names ?log = [] \<and> registered_names ?log = [] \<and>
            searched_queries ?log = []"
    by (simp add: version_call_names_def registered_names_def searched_queries_def
        split: sum.splits)
  obtain rp where rp: "fst ?p =
      GetModelVersion ?ap (?new - 1) (get_model_version (client e) ?ap (?new - 1) 0) # rp"
    using wait_model_transition_first_lookup by blast
  obtain rc where rc: "fst ?c =
      GetModelVersion ?ap ?new (get_model_version (client e) ?ap ?new 0) # rc"
    using wait_model_transition_first_lookup by blast
  have reg: "registered_names (fst (main e)) = [artifact_name]"
    using setup_events_names [of e ?ap] run_events_names [of e ?ap x] lg
      wait_model_transition_names [of "client e" ?ap "?new - 1" "''None''"]
      wait_model_transition_names [of "client e" ?ap ?new "''Staging''"]
    unfolding m registered_names_def
    by (simp add: map_filter_append)
  have "searched_queries (fst (main e)) = [version_query ?ap]"
    using setup_events_names [of e ?ap] run_events_names [of e ?ap x] lg
      wait_model_transition_names [of "client e" ?ap "?new - 1" "''None''"]
      wait_model_transition_names [of "client e" ?ap ?new "''Staging''"]
    unfolding m searched_queries_def
    by (simp add: map_filter_append)
  then have sea: "searched_queries (fst (main e)) =
      [''name = '' @ [CHR 0x27] @ ?ap @ [CHR 0x27]]"
    by (simp only: q)
  have ver: "set (version_call_names (fst (main e))) = {?ap}"
    using setup_events_names [of e ?ap] run_events_names [of e ?ap x] lg
      wait_model_transition_names [of "client e" ?ap "?new - 1" "''None''"]
      wait_model_transition_names [of "client e" ?ap ?new "''Staging''"]
    unfolding m version_call_names_def
    by (simp add: map_filter_append)
  have upd: "UpdateModelVersion ?ap ?new description \<in> set (fst (main e))"
    unfolding m by simp
  have lp: "GetModelVersion ?ap (?new - 1) (get_model_version (client e) ?ap (?new - 1) 0)
            \<in> set (fst (main e))"
    unfolding m using rp by simp
  have lc: "GetModelVersion ?ap ?new (get_model_version (client e) ?ap ?new 0)
            \<in> set (fst (main e))"
    unfolding m using rc by simp
  have ne: "?ap \<noteq> ''clf-model''"
    using artifact_path_not_artifact_name [of h] by (simp add: artifact_name_def)
  have rg: "registered_names (fst (main e)) = [''clf-model'']"
    using reg by (simp add: artifact_name_def)
  from artifact_path_suffix [of h] ne rg sea upd lp lc ver
  show ?thesis by (intro conjI)
qed

theorem registry_calls_name_the_artifact_path_witness:
  "getenv_HOME (env_first registry_first) = Some ''/root'' \<and>
   get_experiment_by_name (env_first registry_first) experiment_name = Some ''1'' \<and>
   search_model_versions (env_first registry_first)
     (''name = '' @ [CHR 0x27] @ artifact_path ''/root'' @ [CHR 0x27]) = 1 # [] \<and>
   artifact_path ''/root'' = ''/root/mlflow_artifacts/clf-model'' \<and>
   artifact_path ''/root'' \<noteq> ''clf-model'' \<and>
   registered_names (fst (main (env_first registry_first))) = [''clf-model''] \<and>
   searched_queries (fst (main (env_first registry_first))) =
     [''name = '' @ [CHR 0x27] @ ''/root/mlflow_artifacts/clf-model'' @ [CHR 0x27]] \<and>
   UpdateModelVersion ''/root/mlflow_artifacts/clf-model'' 1 description
     \<in> set (fst (main (env_first registry_first))) \<and>
   GetModelVersion ''/root/mlflow_artifacts/clf-model'' 0
     (Inl (RestException ''RESOURCE_DOES_NOT_EXIST''))
     \<in> set (fst (main (env_first registry_first))) \<and>
   GetModelVersion ''/root/mlflow_artifacts/clf-model'' 1 (Inr READY)
     \<in> set (fst (main (env_first registry_first))) \<and>
   set (version_call_names (fst (main (env_first registry_first)))) =
     {''/root/mlflow_artifacts/clf-model''}"
proof -
  have a: "getenv_HOME (env_first registry_first) = Some ''/root''"
    by (simp add: env_first_def)
  have b: "get_experiment_by_name (env_first registry_first) experiment_name = Some ''1''"
    by (simp add: env_first_def)
  have c: "search_model_versions (env_first registry_first)
             (''name = '' @ [CHR 0x27] @ artifact_path ''/root'' @ [CHR 0x27]) = 1 # []"
    by (simp add: env_first_def)
  have g0: "get_model_version (client (env_first registry_first))
              ''/root/mlflow_artifacts/clf-model'' 0 0 =
            Inl (RestException ''RESOURCE_DOES_NOT_EXIST'')"
    by (simp add: env_first_def registry_first_def)
  have g1: "get_model_version (client (env_first registry_first))
              ''/root/mlflow_artifacts/clf-model'' 1 0 = Inr READY"
    by (simp add: env_first_def registry_first_def)
  show ?thesis
    using registry_calls_name_the_artifact_path [OF a b c] a b c
    by (simp add: artifact_path_root g0 g1)
qed

text \<open>
  C10. When the version search of \<^verbatim>\<open>main\<close> answers with the empty list, \<^verbatim>\<open>max\<close>
  raises \<^verbatim>\<open>ValueError\<close> and \<^verbatim>\<open>main\<close> ends with it: the search is the last thing
  \<^verbatim>\<open>main\<close> does, and no description update, status lookup or stage transition is
  issued.
\<close>

theorem empty_version_search_aborts_main:
  assumes "getenv_HOME e = Some h"
    and "get_experiment_by_name e experiment_name = Some x"
    and "search_model_versions e (version_query (artifact_path h)) = []"
  shows "snd (main e) = Inl ValueError \<and>
         last (fst (main e)) = SearchModelVersions (version_query (artifact_path h)) \<and>
         version_call_names (fst (main e)) = []"
  using main_no_versions [OF assms]
    setup_events_names [of e "artifact_path h"] run_events_names [of e "artifact_path h" x]
  by (simp add: version_call_names_def map_filter_append)

theorem empty_version_search_aborts_main_witness:
  "getenv_HOME env_no_versions = Some ''/root'' \<and>
   get_experiment_by_name env_no_versions experiment_name = Some ''1'' \<and>
   search_model_versions env_no_versions (version_query (artifact_path ''/root'')) = [] \<and>
   snd (main env_no_versions) = Inl ValueError \<and>
   last (fst (main env_no_versions)) =
     SearchModelVersions (version_query ''/root/mlflow_artifacts/clf-model'') \<and>
   version_call_names (fst (main env_no_versions)) = []"
proof -
  have a: "getenv_HOME env_no_versions = Some ''/root''"
    by (simp add: env_no_versions_def env_first_def)
  have b: "get_experiment_by_name env_no_versions experiment_name = Some ''1''"
    by (simp add: env_no_versions_def env_first_def)
  have c: "search_model_versions env_no_versions (version_query (artifact_path ''/root'')) = []"
    by (simp add: env_no_versions_def env_first_def)
  show ?thesis
    using empty_version_search_aborts_main [OF a b c] a b c
    by (simp add: artifact_path_root)
qed

end
